theory Spec2Isabelle
  imports Main
begin

section \<open>The sing-box process supervisor (singbox/manager.go)\<close>

text \<open>
  The Go code is embedded with explicit state passing. A \<open>Manager\<close> value is the
  struct of the source (without its mutex: every operation below is one critical section
  of that mutex, run from entry to return). What the operating system holds is the record
  \<open>OS\<close>: the files, a clock in nanoseconds, the lines written with \<open>log.Printf\<close>
  (without the date and file prefix), the processes launched and the watcher goroutines
  started. What a system call answers is not decided by the program, so it is an input:
  the record \<open>sysres\<close> gives the answer of each call one operation can make.

  A path names a file exactly when the map \<open>files\<close> has it. Directories and
  permissions are not in the map: where they make a call fail, the failure is an answer
  in \<open>sysres\<close>. So \<open>os.Stat\<close> fails with the error \<open>Stat_err\<close> if that is given
  (an error that \<open>os.IsNotExist\<close> does not recognise: a part of the path that is not a
  directory, a directory that may not be searched), and otherwise reports that the file
  does not exist exactly when the map has no file.

  The clock is advanced by \<open>time.Sleep\<close> and by the expired 10 second timer of
  \<open>Stop\<close> only; every other statement takes no time in the model. A time is its
  nanoseconds since the Unix epoch, an unbounded integer; a duration is the \<open>int64\<close>
  of nanoseconds that \<open>time.Since\<close> saturates to.
\<close>

type_synonym pid = nat

record Cmd =
  Args :: "string list"
  Setpgid :: bool
  Process :: "pid option"

record Manager =
  cmd :: "Cmd option"
  configPath :: string
  execPath :: string
  running :: bool
  startTime :: int
  lastRestart :: int

record Status =
  Running :: bool
  Version :: string
  Uptime :: int
  StartTime :: int

record OS =
  files :: "string \<rightharpoonup> string"
  clock :: int
  logs :: "string list"
  spawned :: "pid list"
  watchers :: "pid list"

datatype error =
    AlreadyRunning
  | ConfigMissing string
  | StartFailed string
  | NotRunning
  | KillFailed string
  | ForceKillFailed string
  | MkdirFailed string
  | WriteFailed string
  | UnknownCommand string
  | RegistrationFailed string
  | DialFailed string
  | StreamFailed string
  | RegisterFailed string
  | Transport string

text \<open>\<open>Error e\<close> is the text of \<open>err.Error()\<close>.\<close>

fun Error :: "error \<Rightarrow> string" where
  "Error AlreadyRunning = ''sing-box is already running''"
| "Error (ConfigMissing p) = ''config file not found: '' @ p"
| "Error (StartFailed e) = ''failed to start sing-box: '' @ e"
| "Error NotRunning = ''sing-box is not running''"
| "Error (KillFailed e) = ''failed to kill sing-box: '' @ e"
| "Error (ForceKillFailed e) = ''failed to force kill sing-box: '' @ e"
| "Error (MkdirFailed e) = ''failed to create config directory: '' @ e"
| "Error (WriteFailed e) = ''failed to write config: '' @ e"
| "Error (UnknownCommand t) = ''unknown command: '' @ t"
| "Error (RegistrationFailed m) = ''registration failed: '' @ m"
| "Error (DialFailed e) = ''failed to connect: '' @ e"
| "Error (StreamFailed e) = ''failed to start stream: '' @ e"
| "Error (RegisterFailed e) = ''failed to register: '' @ e"
| "Error (Transport e) = e"

text \<open>
  \<open>os.WriteFile\<close> truncates the file before it writes: when it fails, what is left
  on disk is not the program's choice, so the failure carries it (\<open>None\<close>: no file).
  The select of \<open>Stop\<close> either receives from \<open>done\<close> or from the 10 second timer.
\<close>

datatype write_result = WriteOk | WriteErr string "string option"

datatype wait_result = WaitReturned | TimedOut

record sysres =
  MkdirAll_err :: "string option"
  WriteFile_res :: write_result
  Stat_err :: "string option"
  Start_res :: "string + pid"
  Signal_err :: "string option"
  Kill_err :: "string option"
  Wait_res :: wait_result
  ForceKill_err :: "string option"
  Send_err :: "string option"

definition Second :: int where
  "Second = 1000000000"

definition Sleep :: "int \<Rightarrow> OS \<Rightarrow> OS" where
  "Sleep d w = w\<lparr>clock := clock w + d\<rparr>"

definition Printf :: "string \<Rightarrow> OS \<Rightarrow> OS" where
  "Printf line w = w\<lparr>logs := logs w @ [line]\<rparr>"

text \<open>Decimal printing (\<open>%d\<close>, and the numbers of \<open>json.Marshal\<close>).\<close>

fun digits :: "nat \<Rightarrow> string" where
  "digits n = (if n < 10 then [''0123456789'' ! n]
               else digits (n div 10) @ [''0123456789'' ! (n mod 10)])"

declare digits.simps [simp del]

definition itoa :: "int \<Rightarrow> string" where
  "itoa i = (if i < 0 then CHR ''-'' # digits (nat (- i)) else digits (nat i))"

text \<open>The zero \<open>time.Time\<close> of a struct never assigned: January 1 of the year 1.\<close>

definition zero_Time :: int where
  "zero_Time = - 62135596800 * Second"

text \<open>\<open>Time.Unix()\<close> is the whole seconds since the epoch, rounded down.\<close>

definition Unix :: "int \<Rightarrow> int" where
  "Unix t = t div Second"

text \<open>
  \<open>time.Since(t)\<close> is the duration from \<open>t\<close> to now, saturated to the least and the
  greatest \<open>Duration\<close>.
\<close>

definition minDuration :: int where
  "minDuration = - (2 ^ 63)"

definition maxDuration :: int where
  "maxDuration = 2 ^ 63 - 1"

definition Since :: "int \<Rightarrow> int \<Rightarrow> int" where
  "Since now t =
     (let d = now - t
      in if d < minDuration then minDuration else if maxDuration < d then maxDuration else d)"

text \<open>
  The uptime is \<open>int64(time.Since(m.startTime).Seconds())\<close>, and \<open>Seconds\<close> works in
  \<open>float64\<close>: \<open>float64(d / Second) + float64(d % Second) / 1e9\<close>, each operation
  rounded to the nearest \<open>float64\<close>, ties to the even significand. A \<open>float64\<close> is
  modelled by a pair \<open>(m, e)\<close> of integers that stands for \<open>m * 2 ^ e\<close>.
  \<open>round64 a b k\<close> is the \<open>float64\<close> nearest to \<open>a / b * 2 ^ k\<close> (for \<open>b\<close>
  positive): the quotient is scaled to a significand of 53 bits, which is rounded to an
  integer. Exponents are not bounded here (no overflow, no subnormal numbers): the values
  of \<open>Seconds\<close> are 0 or between \<open>1e-9\<close> and \<open>1e10\<close> in size. \<open>quot\<close> and
  \<open>rem\<close> are Go's \<open>/\<close> and \<open>%\<close> on integers, which round towards zero.
\<close>

type_synonym float64 = "int \<times> int"

fun bitlen :: "nat \<Rightarrow> nat" where
  "bitlen n = (if n = 0 then 0 else Suc (bitlen (n div 2)))"

declare bitlen.simps [simp del]

text \<open>The integer part of the binary logarithm of \<open>n / b\<close>, for \<open>n\<close> and \<open>b\<close> positive.\<close>

definition ilog2 :: "int \<Rightarrow> int \<Rightarrow> int" where
  "ilog2 n b =
     (if b \<le> n then int (bitlen (nat (n div b))) - 1
      else - int (bitlen (nat ((b + n - 1) div n - 1))))"

text \<open>The integer nearest to \<open>n / b\<close>, the even one of two equally near.\<close>

definition round_even :: "int \<Rightarrow> int \<Rightarrow> int" where
  "round_even n b =
     (let q = n div b; r = n mod b
      in if 2 * r < b then q else if b < 2 * r then q + 1 else if even q then q else q + 1)"

definition round64 :: "int \<Rightarrow> int \<Rightarrow> int \<Rightarrow> float64" where
  "round64 a b k =
     (if a = 0 then (0, 0)
      else (let n = \<bar>a\<bar>;
                s = 52 - ilog2 n b;
                m = (if 0 \<le> s then round_even (n * 2 ^ nat s) b
                     else round_even n (b * 2 ^ nat (- s)))
            in (sgn a * m, k - s)))"

definition float64_of_int :: "int \<Rightarrow> float64" where
  "float64_of_int i = round64 i 1 0"

definition fdiv :: "float64 \<Rightarrow> float64 \<Rightarrow> float64" where
  "fdiv x y =
     (case x of (m1, e1) \<Rightarrow> case y of (m2, e2) \<Rightarrow> round64 (sgn m2 * m1) \<bar>m2\<bar> (e1 - e2))"

definition fadd :: "float64 \<Rightarrow> float64 \<Rightarrow> float64" where
  "fadd x y =
     (case x of (m1, e1) \<Rightarrow> case y of (m2, e2) \<Rightarrow>
        (let k = min e1 e2
         in round64 (m1 * 2 ^ nat (e1 - k) + m2 * 2 ^ nat (e2 - k)) 1 k))"

definition quot :: "int \<Rightarrow> int \<Rightarrow> int" where
  "quot a b = sgn a * sgn b * (\<bar>a\<bar> div \<bar>b\<bar>)"

definition rem :: "int \<Rightarrow> int \<Rightarrow> int" where
  "rem a b = a - b * quot a b"

definition Seconds :: "int \<Rightarrow> float64" where
  "Seconds d =
     fadd (float64_of_int (quot d Second))
          (fdiv (float64_of_int (rem d Second)) (float64_of_int 1000000000))"

text \<open>The conversion \<open>int64(x)\<close> of a \<open>float64\<close> drops the fraction.\<close>

definition int64 :: "float64 \<Rightarrow> int" where
  "int64 x =
     (case x of (m, e) \<Rightarrow>
        if 0 \<le> e then m * 2 ^ nat e else sgn m * (\<bar>m\<bar> div 2 ^ nat (- e)))"

definition UpdateConfig :: "Manager \<Rightarrow> string \<Rightarrow> sysres \<Rightarrow> OS \<Rightarrow> error option \<times> OS" where
  "UpdateConfig m config r w =
     (case MkdirAll_err r of
        Some e \<Rightarrow> (Some (MkdirFailed e), w)
      | None \<Rightarrow>
          (case WriteFile_res r of
             WriteErr e left \<Rightarrow> (Some (WriteFailed e), w\<lparr>files := (files w)(configPath m := left)\<rparr>)
           | WriteOk \<Rightarrow>
               (None, Printf (''Configuration updated at '' @ configPath m)
                        (w\<lparr>files := (files w)(configPath m \<mapsto> config)\<rparr>))))"

definition Start :: "Manager \<Rightarrow> sysres \<Rightarrow> OS \<Rightarrow> error option \<times> Manager \<times> OS" where
  "Start m r w =
     (if running m then (Some AlreadyRunning, m, w)
      else if Stat_err r = None \<and> files w (configPath m) = None
      then (Some (ConfigMissing (configPath m)), m, w)
      else
        (let c = \<lparr>Args = [execPath m, ''run'', ''-c'', configPath m], Setpgid = True, Process = None\<rparr>
         in case Start_res r of
              Inl e \<Rightarrow> (Some (StartFailed e), m\<lparr>cmd := Some c\<rparr>, w)
            | Inr p \<Rightarrow>
                (None,
                 m\<lparr>cmd := Some (c\<lparr>Process := Some p\<rparr>), running := True,
                   startTime := clock w, lastRestart := clock w\<rparr>,
                 (Printf (''sing-box started with PID '' @ itoa (int p))
                    (w\<lparr>spawned := spawned w @ [p]\<rparr>))\<lparr>watchers := watchers w @ [p]\<rparr>)))"

definition process_of :: "Manager \<Rightarrow> pid option" where
  "process_of m = (case cmd m of None \<Rightarrow> None | Some c \<Rightarrow> Process c)"

definition Stop :: "Manager \<Rightarrow> sysres \<Rightarrow> OS \<Rightarrow> error option \<times> Manager \<times> OS" where
  "Stop m r w =
     (if \<not> running m \<or> cmd m = None \<or> process_of m = None then (Some NotRunning, m, w)
      else
        (case (case Signal_err r of None \<Rightarrow> None | Some e \<Rightarrow> Kill_err r) of
           Some e \<Rightarrow> (Some (KillFailed e), m, w)
         | None \<Rightarrow>
             (case Wait_res r of
                WaitReturned \<Rightarrow> (None, m\<lparr>running := False\<rparr>, Printf ''sing-box stopped'' w)
              | TimedOut \<Rightarrow>
                  (case ForceKill_err r of
                     Some e \<Rightarrow> (Some (ForceKillFailed e), m, Sleep (10 * Second) w)
                   | None \<Rightarrow>
                       (None, m\<lparr>running := False\<rparr>,
                        Printf ''sing-box force killed'' (Sleep (10 * Second) w))))))"

definition Restart :: "Manager \<Rightarrow> sysres \<Rightarrow> OS \<Rightarrow> error option \<times> Manager \<times> OS" where
  "Restart m r w =
     (case Stop m r w of
        (e, m1, w1) \<Rightarrow>
          Start m1 r
            (Sleep (1 * Second)
               (case e of
                  Some err \<Rightarrow> Printf (''Warning: error stopping sing-box: '' @ Error err) w1
                | None \<Rightarrow> w1)))"

definition GetStatus :: "Manager \<Rightarrow> int \<Rightarrow> Status" where
  "GetStatus m now =
     (let status = \<lparr>Running = running m, Version = [], Uptime = 0, StartTime = 0\<rparr>
      in if running m
         then status\<lparr>Uptime := int64 (Seconds (Since now (startTime m))),
                      StartTime := Unix (startTime m)\<rparr>
         else status)"

definition IsRunning :: "Manager \<Rightarrow> bool" where
  "IsRunning m = running m"

text \<open>
  The watcher goroutine, from the moment \<open>m.cmd.Wait()\<close> has returned (with the error
  \<open>exit_err\<close>, if any): it clears the running flag, whatever process is current by then.
\<close>

definition monitor :: "Manager \<Rightarrow> string option \<Rightarrow> OS \<Rightarrow> Manager \<times> OS" where
  "monitor m exit_err w =
     (if cmd m = None then (m, w)
      else (m\<lparr>running := False\<rparr>,
            (case exit_err of
               Some e \<Rightarrow> Printf (''sing-box exited with error: '' @ e) w
             | None \<Rightarrow> Printf ''sing-box exited normally'' w)))"

section \<open>The control session and the reconnect loop (the grpc client)\<close>

text \<open>
  The wire messages, one constructor for each variant of the two \<open>oneof\<close> payloads:
  \<open>Register token version\<close>, \<open>Heartbeat timestamp\<close>,
  \<open>SysStats cpu memory disk network uptime\<close>,
  \<open>SbStatus running connections upload download\<close> and
  \<open>CommandResult command_id success output error\<close> from the agent;
  \<open>RegisterResponse success message node_id\<close>, \<open>PushConfig version config_json\<close>
  and \<open>Command command_id type\<close> from the server, \<open>OtherPayload\<close> for a payload
  the type switch does not know.
\<close>

datatype AgentMessage =
    Register string string
  | Heartbeat int
  | SysStats string string string string string
  | SbStatus bool int int int
  | CommandResult string bool string string

datatype ServerMessage =
    RegisterResponse bool string int
  | PushConfig int string
  | Command string string
  | OtherPayload

text \<open>
  Go's pointers to connections, streams and contexts are handles: natural numbers taken
  from the counter \<open>next_id\<close>, so that a new object differs from every older one.
  \<open>Client\<close> is the struct of the source; its field \<open>sbManager\<close> holds the value of
  the one supervisor it points to, its field \<open>cancel\<close> is not kept apart from
  \<open>ctx\<close>, since the two are only ever assigned together, and its stats collector is
  present through what it answers at each tick (\<open>tickres\<close> below). \<open>World\<close> is everything
  outside the struct: the operating system, the channels dialled and not closed, the
  contexts whose cancel function has been called, the calls of \<open>stream.Send\<close> in
  order (each with the stream handle it was made on, \<open>None\<close> for a nil stream, and
  whether it failed or not is the answer of the transport), the streams half-closed with
  \<open>CloseSend\<close>. The settings of the process-wide configuration that the client reads
  are the record \<open>Config\<close>.

  A send on a nil stream panics in Go. The model has no panic: it records such a send with
  the handle \<open>None\<close>, and the theorems about sends are stated for a client that holds
  a stream, as every client does whose \<open>Connect\<close> succeeded (the loops are started by
  nothing else).
\<close>

type_synonym conn_id = nat
type_synonym stream_id = nat
type_synonym ctx_id = nat

record Config =
  Server :: string
  Token :: string

record Client =
  conn :: "conn_id option"
  stream :: "stream_id option"
  sbManager :: Manager
  ctx :: ctx_id

record World =
  os :: OS
  conns :: "conn_id list"
  cancelled :: "ctx_id set"
  sent :: "(stream_id option \<times> AgentMessage) list"
  half_closed :: "stream_id list"
  next_id :: nat

definition wlog :: "string \<Rightarrow> World \<Rightarrow> World" where
  "wlog line w = w\<lparr>os := Printf line (os w)\<rparr>"

definition wsleep :: "int \<Rightarrow> World \<Rightarrow> World" where
  "wsleep d w = w\<lparr>os := Sleep d (os w)\<rparr>"

definition cancel :: "Client \<Rightarrow> World \<Rightarrow> World" where
  "cancel c w = w\<lparr>cancelled := insert (ctx c) (cancelled w)\<rparr>"

definition Done :: "Client \<Rightarrow> World \<Rightarrow> bool" where
  "Done c w = (ctx c \<in> cancelled w)"

definition Send :: "Client \<Rightarrow> AgentMessage \<Rightarrow> World \<Rightarrow> World" where
  "Send c msg w = w\<lparr>sent := sent w @ [(stream c, msg)]\<rparr>"

definition NewClient :: "Manager \<Rightarrow> World \<Rightarrow> Client \<times> World" where
  "NewClient m w =
     (\<lparr>conn = None, stream = None, sbManager = m, ctx = next_id w\<rparr>,
      w\<lparr>next_id := Suc (next_id w)\<rparr>)"

text \<open>The answers of the transport to one \<open>Connect\<close>.\<close>

record connres =
  Dial_err :: "string option"
  NewStream_err :: "string option"
  Register_err :: "string option"

definition register :: "Config \<Rightarrow> Client \<Rightarrow> World \<Rightarrow> World" where
  "register cfg c w = Send c (Register (Token cfg) ''1.0.0'') w"

definition Connect :: "Config \<Rightarrow> Client \<Rightarrow> connres \<Rightarrow> World \<Rightarrow> error option \<times> Client \<times> World" where
  "Connect cfg c r w =
     (let w0 = wlog (''Connecting to server: '' @ Server cfg) w
      in case Dial_err r of
           Some e \<Rightarrow> (Some (DialFailed e), c, w0)
         | None \<Rightarrow>
             (let k = next_id w0;
                  c1 = c\<lparr>conn := Some k\<rparr>;
                  w1 = w0\<lparr>conns := conns w0 @ [k], next_id := Suc k\<rparr>
              in case NewStream_err r of
                   Some e \<Rightarrow> (Some (StreamFailed e), c1, w1)
                 | None \<Rightarrow>
                     (let s = next_id w1;
                          c2 = c1\<lparr>stream := Some s\<rparr>;
                          w2 = register cfg c2 (w1\<lparr>next_id := Suc s\<rparr>)
                      in case Register_err r of
                           Some e \<Rightarrow> (Some (RegisterFailed e), c2, w2)
                         | None \<Rightarrow>
                             (None, c2, wlog ''Connected and registered successfully'' w2))))"

text \<open>
  The stats snapshot, as \<open>json.Unmarshal\<close> decodes it into a map: a value is a JSON
  string, or anything else, kept as the text \<open>json.Marshal\<close> gives back for it.
\<close>

datatype jvalue = JString string | JOther string

definition getStringField :: "(string \<rightharpoonup> jvalue) \<Rightarrow> string \<Rightarrow> string" where
  "getStringField m key =
     (case m key of
        Some (JString str) \<Rightarrow> str
      | Some (JOther bytes) \<Rightarrow> bytes
      | None \<Rightarrow> [])"

text \<open>
  The answers to one heartbeat tick: the stats collector (\<open>Inl\<close>: it failed and gave
  no snapshot) and the three sends.
\<close>

record tickres =
  Collect_res :: "string + (string \<rightharpoonup> jvalue)"
  Heartbeat_err :: "string option"
  Stats_err :: "string option"
  Status_err :: "string option"

text \<open>
  The body of the ticker case of \<open>sendHeartbeat\<close>. The result says whether the loop
  goes on (\<open>False\<close>: it has returned).
\<close>

definition heartbeatTick :: "Client \<Rightarrow> tickres \<Rightarrow> World \<Rightarrow> bool \<times> World" where
  "heartbeatTick c t w =
     (let w0 = (case Collect_res t of
                  Inl e \<Rightarrow> wlog (''Warning: failed to collect stats: '' @ e) w
                | Inr sysStats \<Rightarrow> w);
          w1 = Send c (Heartbeat (Unix (clock (os w0)))) w0
      in case Heartbeat_err t of
           Some e \<Rightarrow> (False, cancel c (wlog (''Failed to send heartbeat: '' @ e) w1))
         | None \<Rightarrow>
             (let w2 = (case Collect_res t of
                          Inl e \<Rightarrow> w1
                        | Inr statsMap \<Rightarrow>
                            (let w' = Send c (SysStats (getStringField statsMap ''cpu'')
                                                (getStringField statsMap ''memory'')
                                                (getStringField statsMap ''disk'')
                                                (getStringField statsMap ''network'')
                                                (getStringField statsMap ''uptime'')) w1
                             in case Stats_err t of
                                  Some e \<Rightarrow> wlog (''Failed to send stats: '' @ e) w'
                                | None \<Rightarrow> w'));
                  sbStatus = GetStatus (sbManager c) (clock (os w2));
                  w3 = Send c (SbStatus (Running sbStatus) 0 0 0) w2
              in (True,
                  case Status_err t of
                    Some e \<Rightarrow> wlog (''Failed to send sing-box status: '' @ e) w3
                  | None \<Rightarrow> w3)))"

text \<open>
  The loop itself, over what its select takes, in order: the context's \<open>Done\<close> channel
  or a tick. The \<open>Done\<close> case can only be taken once the context is cancelled (an event
  that cannot occur is skipped). With no event left the loop is blocked in the select.
\<close>

datatype hb_event = CtxDone | Tick tickres

fun sendHeartbeat :: "Client \<Rightarrow> hb_event list \<Rightarrow> World \<Rightarrow> World" where
  "sendHeartbeat c [] w = w"
| "sendHeartbeat c (CtxDone # evs) w = (if Done c w then w else sendHeartbeat c evs w)"
| "sendHeartbeat c (Tick t # evs) w =
     (case heartbeatTick c t w of
        (True, w1) \<Rightarrow> sendHeartbeat c evs w1
      | (False, w1) \<Rightarrow> w1)"

definition handleRegisterResponse :: "bool \<Rightarrow> string \<Rightarrow> int \<Rightarrow> World \<Rightarrow> error option \<times> World" where
  "handleRegisterResponse success message node_id w =
     (if success
      then (None, wlog (''Registration successful: '' @ message @ '' (Node ID: '' @ itoa node_id @ '')'') w)
      else (Some (RegistrationFailed message), w))"

definition handlePushConfig ::
  "Client \<Rightarrow> int \<Rightarrow> string \<Rightarrow> sysres \<Rightarrow> World \<Rightarrow> error option \<times> Client \<times> World" where
  "handlePushConfig c version config_json r w =
     (let w0 = wlog (''Received configuration (version: '' @ itoa version @ '')'') w
      in case UpdateConfig (sbManager c) config_json r (os w0) of
           (Some e, o1) \<Rightarrow> (Some e, c, w0\<lparr>os := Printf (''Failed to update config: '' @ Error e) o1\<rparr>)
         | (None, o1) \<Rightarrow>
             (if IsRunning (sbManager c)
              then (case Restart (sbManager c) r
                           (Printf ''Restarting sing-box with new configuration...'' o1) of
                      (Some e, m2, o2) \<Rightarrow>
                        (Some e, c\<lparr>sbManager := m2\<rparr>,
                         w0\<lparr>os := Printf (''Failed to restart sing-box: '' @ Error e) o2\<rparr>)
                    | (None, m2, o2) \<Rightarrow>
                        (None, c\<lparr>sbManager := m2\<rparr>,
                         w0\<lparr>os := Printf ''Configuration applied successfully'' o2\<rparr>))
              else (case Start (sbManager c) r
                           (Printf ''Starting sing-box with new configuration...'' o1) of
                      (Some e, m2, o2) \<Rightarrow>
                        (Some e, c\<lparr>sbManager := m2\<rparr>,
                         w0\<lparr>os := Printf (''Failed to start sing-box: '' @ Error e) o2\<rparr>)
                    | (None, m2, o2) \<Rightarrow>
                        (None, c\<lparr>sbManager := m2\<rparr>,
                         w0\<lparr>os := Printf ''Configuration applied successfully'' o2\<rparr>))))"

text \<open>
  \<open>json.Marshal\<close> of a \<open>Status\<close>. The version is written between quotes as it is:
  \<open>GetStatus\<close> never sets it, so the only version marshalled is the empty string.
\<close>

definition json_Status :: "Status \<Rightarrow> string" where
  \<open>json_Status st =
     ''{"running":'' @ (if Running st then ''true'' else ''false'') @
     '',"version":"'' @ Version st @
     ''","uptime":'' @ itoa (Uptime st) @
     '',"start_time":'' @ itoa (StartTime st) @ ''}''\<close>

text \<open>
  The switch of \<open>handleCommand\<close>: the error, the output and the supervisor and operating
  system after the operation.
\<close>

definition dispatch :: "Manager \<Rightarrow> string \<Rightarrow> sysres \<Rightarrow> OS \<Rightarrow> error option \<times> string \<times> Manager \<times> OS" where
  "dispatch m type r w =
     (if type = ''start'' then (case Start m r w of (e, m1, w1) \<Rightarrow> (e, ''Sing-box started'', m1, w1))
      else if type = ''stop'' then (case Stop m r w of (e, m1, w1) \<Rightarrow> (e, ''Sing-box stopped'', m1, w1))
      else if type = ''restart'' then (case Restart m r w of (e, m1, w1) \<Rightarrow> (e, ''Sing-box restarted'', m1, w1))
      else if type = ''status'' then (None, json_Status (GetStatus m (clock w)), m, w)
      else (Some (UnknownCommand type), [], m, w))"

definition handleCommand ::
  "Client \<Rightarrow> string \<Rightarrow> string \<Rightarrow> sysres \<Rightarrow> World \<Rightarrow> error option \<times> Client \<times> World" where
  "handleCommand c command_id type r w =
     (let w0 = wlog (''Received command: '' @ type @ '' (ID: '' @ command_id @ '')'') w
      in case dispatch (sbManager c) type r (os w0) of
           (err, output, m1, o1) \<Rightarrow>
             (let c1 = c\<lparr>sbManager := m1\<rparr>;
                  result = CommandResult command_id (err = None) output
                             (case err of None \<Rightarrow> [] | Some e \<Rightarrow> Error e)
              in (map_option Transport (Send_err r), c1, Send c1 result (w0\<lparr>os := o1\<rparr>))))"

definition handleMessage ::
  "Client \<Rightarrow> ServerMessage \<Rightarrow> sysres \<Rightarrow> World \<Rightarrow> error option \<times> Client \<times> World" where
  "handleMessage c msg r w =
     (case msg of
        RegisterResponse success message node_id \<Rightarrow>
          (case handleRegisterResponse success message node_id w of (e, w1) \<Rightarrow> (e, c, w1))
      | PushConfig version config_json \<Rightarrow> handlePushConfig c version config_json r w
      | Command command_id type \<Rightarrow> handleCommand c command_id type r w
      | OtherPayload \<Rightarrow> (None, c, wlog ''Unknown message type received'' w))"

text \<open>One pass of the receive loop after \<open>Recv\<close> gave a message: handle it, log an error.\<close>

definition handled :: "Client \<Rightarrow> ServerMessage \<Rightarrow> sysres \<Rightarrow> World \<Rightarrow> Client \<times> World" where
  "handled c msg r w =
     (case handleMessage c msg r w of
        (Some e, c1, w1) \<Rightarrow> (c1, wlog (''Error handling message: '' @ Error e) w1)
      | (None, c1, w1) \<Rightarrow> (c1, w1))"

text \<open>The pass after \<open>Recv\<close> gave an error: log it, cancel the context, return.\<close>

definition recv_failed :: "Client \<Rightarrow> string \<Rightarrow> World \<Rightarrow> World" where
  "recv_failed c e w = cancel c (wlog (''Stream receive error: '' @ e) w)"

text \<open>
  The receive loop, over what \<open>stream.Recv()\<close> returns, in order: an error, or a message
  (with the answers of the system calls its handler makes). With no event left the loop is
  blocked in \<open>Recv\<close>.
\<close>

datatype recv_result = RecvErr string | RecvMsg ServerMessage sysres

fun receiveMessages :: "Client \<Rightarrow> recv_result list \<Rightarrow> World \<Rightarrow> Client \<times> World" where
  "receiveMessages c [] w = (c, w)"
| "receiveMessages c (RecvErr e # evs) w = (c, recv_failed c e w)"
| "receiveMessages c (RecvMsg msg r # evs) w =
     (case handled c msg r w of (c1, w1) \<Rightarrow> receiveMessages c1 evs w1)"

definition Close :: "Client \<Rightarrow> string option \<Rightarrow> World \<Rightarrow> error option \<times> World" where
  "Close c close_err w =
     (let w1 = cancel c w;
          w2 = (case stream c of
                  Some s \<Rightarrow> w1\<lparr>half_closed := half_closed w1 @ [s]\<rparr>
                | None \<Rightarrow> w1)
      in case conn c of
           Some k \<Rightarrow> (map_option Transport close_err, w2\<lparr>conns := removeAll k (conns w2)\<rparr>)
         | None \<Rightarrow> (None, w2))"

subsection \<open>The two loops of one session, interleaved\<close>

text \<open>
  The receive loop and the heartbeat loop are goroutines of one session; they share the
  client, the stream and the context. An interleaving is a list of actions, each one step
  of one loop: \<open>Recv\<close> returns (an error or a message), the receive loop handles the
  message it holds, the heartbeat select takes a tick and runs its body, the heartbeat
  select takes the \<open>Done\<close> case. An action of a loop that is not at that point leaves the
  state as it is. A handler and a tick run as one step here, so the model has fewer
  interleavings than the program, never more.
\<close>

datatype rx_state = Receiving | Handling ServerMessage | RxReturned

datatype hb_state = Waiting | HbReturned

record Session =
  client :: Client
  world :: World
  rx :: rx_state
  hb :: hb_state

datatype action =
    Recv_returns "string + ServerMessage"
  | Handle sysres
  | Ticker tickres
  | Ctx_done

fun step :: "Session \<Rightarrow> action \<Rightarrow> Session" where
  "step s (Recv_returns (Inl e)) =
     (if rx s = Receiving
      then s\<lparr>world := recv_failed (client s) e (world s), rx := RxReturned\<rparr>
      else s)"
| "step s (Recv_returns (Inr msg)) =
     (if rx s = Receiving then s\<lparr>rx := Handling msg\<rparr> else s)"
| "step s (Handle r) =
     (case rx s of
        Handling msg \<Rightarrow>
          (case handled (client s) msg r (world s) of
             (c1, w1) \<Rightarrow> s\<lparr>client := c1, world := w1, rx := Receiving\<rparr>)
      | _ \<Rightarrow> s)"
| "step s (Ticker t) =
     (if hb s = Waiting
      then (case heartbeatTick (client s) t (world s) of
              (go_on, w1) \<Rightarrow> s\<lparr>world := w1, hb := (if go_on then Waiting else HbReturned)\<rparr>)
      else s)"
| "step s Ctx_done =
     (if hb s = Waiting \<and> Done (client s) (world s) then s\<lparr>hb := HbReturned\<rparr> else s)"

definition session :: "Client \<Rightarrow> World \<Rightarrow> Session" where
  "session c w = \<lparr>client = c, world = w, rx = Receiving, hb = Waiting\<rparr>"

definition run_session :: "Client \<Rightarrow> World \<Rightarrow> action list \<Rightarrow> Session" where
  "run_session c w acts = foldl step (session c w) acts"

subsection \<open>The reconnect loop and the loops it has started\<close>

text \<open>
  \<open>Run\<close> never returns, and it waits for none of the goroutines that \<open>Connect\<close> has
  started: when the context is cancelled it sleeps, renews \<open>c.ctx\<close> and \<open>c.cancel\<close>
  and connects again, while a loop of the ended session that has not returned yet goes on,
  on the same client. Such a loop reads \<open>c.stream\<close> and \<open>c.cancel\<close> when it uses them,
  so it sends on the stream and cancels the context that the client holds by then. The
  agent is therefore modelled as a whole: the client, the world, the place \<open>Run\<close> is at
  (about to call \<open>Connect\<close>, or blocked on the \<open>Done\<close> channel of the context) and
  the loops of every session started so far, each pair started by one successful
  \<open>Connect\<close>. A heartbeat loop in its select holds the context it read on entering it.

  An event is one step of one goroutine: \<open>Connect\<close> runs and returns in \<open>Run\<close>
  (followed, when it failed, by the log lines and the sleep of 10 seconds); the receive
  from the \<open>Done\<close> channel returns in \<open>Run\<close> (followed by the sleep of 5 seconds and
  the renewal); or a loop of session \<open>i\<close> makes a step, as in the interleaving of one
  session above. An event that cannot occur in a state leaves it as it is. \<open>Connect\<close>,
  a handler and a tick are single steps, so the model has fewer interleavings than the
  program, never more.
\<close>

definition renew :: "Client \<Rightarrow> World \<Rightarrow> Client \<times> World" where
  "renew c w = (c\<lparr>ctx := next_id w\<rparr>, w\<lparr>next_id := Suc (next_id w)\<rparr>)"

text \<open>The part of the loop body after \<open>Connect\<close> has failed with \<open>e\<close>.\<close>

definition retry_later :: "error \<Rightarrow> World \<Rightarrow> World" where
  "retry_later e w =
     wsleep (10 * Second)
       (wlog ''Retrying in 10 seconds...'' (wlog (''Connection failed: '' @ Error e) w))"

text \<open>The part after the context's \<open>Done\<close> channel has been received from.\<close>

definition reconnect :: "Client \<Rightarrow> World \<Rightarrow> Client \<times> World" where
  "reconnect c w =
     renew c (wsleep (5 * Second) (wlog ''Disconnected. Reconnecting in 5 seconds...'' w))"








text \<open>
  Every handle in use is below the counter: what makes a handle taken from the counter a
  new one.
\<close>

definition handles_below :: "Client \<Rightarrow> World \<Rightarrow> bool" where
  "handles_below c w =
     ((\<forall>k \<in> set (conns w). k < next_id w) \<and> (\<forall>x \<in> cancelled w. x < next_id w) \<and>
      ctx c < next_id w \<and>
      (case conn c of None \<Rightarrow> True | Some k \<Rightarrow> k < next_id w) \<and>
      (case stream c of None \<Rightarrow> True | Some k \<Rightarrow> k < next_id w))"

section \<open>Example states\<close>

text \<open>
  Concrete states for the closed theorems below: a supervisor that was never started, one
  that runs process 4242 since second 1700000000, one that was stopped after that run, an
  operating system with and without the config file, and system-call answers.
\<close>

definition demo_stopped :: Manager where
  "demo_stopped =
     \<lparr>cmd = None, configPath = ''/etc/sb/config.json'', execPath = ''sing-box'',
      running = False, startTime = zero_Time, lastRestart = zero_Time\<rparr>"

definition demo_cmd :: Cmd where
  "demo_cmd =
     \<lparr>Args = [''sing-box'', ''run'', ''-c'', ''/etc/sb/config.json''], Setpgid = True,
      Process = Some 4242\<rparr>"

definition demo_running :: Manager where
  "demo_running =
     \<lparr>cmd = Some demo_cmd, configPath = ''/etc/sb/config.json'', execPath = ''sing-box'',
      running = True, startTime = 1700000000 * Second, lastRestart = 1700000000 * Second\<rparr>"

definition demo_exited :: Manager where
  "demo_exited = demo_running\<lparr>running := False\<rparr>"

definition demo_os :: OS where
  "demo_os =
     \<lparr>files = Map.empty, clock = 1700000090 * Second, logs = [], spawned = [],
      watchers = []\<rparr>"

definition demo_os_cfg :: OS where
  "demo_os_cfg = demo_os\<lparr>files := [''/etc/sb/config.json'' \<mapsto> ''{}'']\<rparr>"

text \<open>Every call succeeds, and the child exits within the 10 seconds.\<close>

definition all_ok :: sysres where
  "all_ok =
     \<lparr>MkdirAll_err = None, WriteFile_res = WriteOk, Stat_err = None, Start_res = Inr 4243,
      Signal_err = None,
      Kill_err = None, Wait_res = WaitReturned, ForceKill_err = None, Send_err = None\<rparr>"

text \<open>
  The child has been reaped by the watcher, which has not yet taken the lock: both the
  signal and the kill answer that the process has finished.
\<close>

definition reaped :: sysres where
  "reaped =
     all_ok\<lparr>Signal_err := Some ''os: process already finished'',
            Kill_err := Some ''os: process already finished''\<rparr>"

text \<open>The child ignores the signal, and the kill after the 10 seconds works or fails.\<close>

definition slow_exit :: sysres where
  "slow_exit = all_ok\<lparr>Wait_res := TimedOut\<rparr>"

definition unkillable :: sysres where
  "unkillable = all_ok\<lparr>Wait_res := TimedOut, ForceKill_err := Some ''operation not permitted''\<rparr>"

text \<open>
  A client made by \<open>NewClient\<close> around the supervisor that was never started, in a world
  where nothing has happened yet; the answers of the transport; a heartbeat tick whose
  stats collector fails, and one whose heartbeat send fails.
\<close>

definition demo_world :: World where
  "demo_world =
     \<lparr>os = demo_os, conns = [], cancelled = {}, sent = [], half_closed = [], next_id = 0\<rparr>"

definition demo_client :: Client where
  "demo_client = fst (NewClient demo_stopped demo_world)"

definition demo_world1 :: World where
  "demo_world1 = snd (NewClient demo_stopped demo_world)"

definition demo_cfg :: Config where
  "demo_cfg = \<lparr>Server = ''master.example.com:2097'', Token = ''secret''\<rparr>"

definition conn_ok :: connres where
  "conn_ok = \<lparr>Dial_err = None, NewStream_err = None, Register_err = None\<rparr>"

definition dial_fails :: connres where
  "dial_fails = conn_ok\<lparr>Dial_err := Some ''context deadline exceeded''\<rparr>"

definition tick_ok :: tickres where
  "tick_ok =
     \<lparr>Collect_res = Inr [''cpu'' \<mapsto> JOther ''{}'', ''uptime'' \<mapsto> JOther ''17''],
      Heartbeat_err = None, Stats_err = None, Status_err = None\<rparr>"

definition tick_no_stats :: tickres where
  "tick_no_stats = tick_ok\<lparr>Collect_res := Inl ''json: unsupported value''\<rparr>"

definition tick_hb_fails :: tickres where
  "tick_hb_fails = tick_ok\<lparr>Heartbeat_err := Some ''EOF''\<rparr>"

text \<open>
  The config directory is a regular file: \<open>os.Stat\<close> of the config path fails, and not
  with an error that says the file does not exist.
\<close>

definition not_a_dir :: sysres where
  "not_a_dir = all_ok\<lparr>Stat_err := Some ''stat /etc/sb/config.json: not a directory''\<rparr>"

text \<open>A supervisor that has been running for 16777216 seconds and 999999999 nanoseconds.\<close>

definition demo_long :: Manager where
  "demo_long = demo_running\<lparr>startTime := clock demo_os - 16777216999999999\<rparr>"

definition no_mkdir :: sysres where
  "no_mkdir = all_ok\<lparr>MkdirAll_err := Some ''permission denied''\<rparr>"

text \<open>The client after its first successful \<open>Connect\<close>, and the world then.\<close>

definition demo_connected :: Client where
  "demo_connected = fst (snd (Connect demo_cfg demo_client conn_ok demo_world1))"

definition demo_world2 :: World where
  "demo_world2 = snd (snd (Connect demo_cfg demo_client conn_ok demo_world1))"



definition demo_cancelled :: Session where
  "demo_cancelled =
     run_session demo_connected demo_world2
       [Recv_returns (Inr (Command ''c1'' ''stop'')), Ticker tick_hb_fails]"

section \<open>Properties of the supervisor\<close>

text \<open>
  What \<open>Start\<close> refuses: a running supervisor, and a stopped one whose config file
  \<open>os.Stat\<close> reports as not existing. Nothing is changed then.
\<close>

lemma Start_refusals:
  "(running m \<longrightarrow> Start m r w = (Some AlreadyRunning, m, w)) \<and>
   (\<not> running m \<and> Stat_err r = None \<and> files w (configPath m) = None \<longrightarrow>
      Start m r w = (Some (ConfigMissing (configPath m)), m, w))"
  by (simp add: Start_def)

text \<open>
  C4. \<open>Start\<close> is to fail with \<open>AlreadyRunning\<close> whenever the supervisor is not
  stopped, and with \<open>ConfigMissing\<close> whenever it is stopped and the config file does not
  exist, the supervisor unchanged and no process launched in both cases. The code checks
  that the config file exists with \<open>os.IsNotExist\<close> on the error of \<open>os.Stat\<close>,
  and that misses the other errors of \<open>os.Stat\<close>. Here the supervisor is stopped and
  there is no config file (its directory is a regular file), and \<open>Start\<close> returns no
  error: it has launched process 4243 with the missing file as its config, set the running
  flag and started a watcher.
\<close>

theorem Start_without_config_file:
  "\<not> running demo_stopped \<and> files demo_os (configPath demo_stopped) = None \<and>
   fst (Start demo_stopped not_a_dir demo_os) = None \<and>
   running (fst (snd (Start demo_stopped not_a_dir demo_os))) \<and>
   process_of (fst (snd (Start demo_stopped not_a_dir demo_os))) = Some 4243 \<and>
   spawned (snd (snd (Start demo_stopped not_a_dir demo_os))) = [4243] \<and>
   watchers (snd (snd (Start demo_stopped not_a_dir demo_os))) = [4243]"
  by (simp add: Start_def not_a_dir_def all_ok_def demo_stopped_def demo_os_def Printf_def
      process_of_def)

text \<open>
  C10. \<open>Start\<close> tests the running flag before it looks for the config file: a running
  supervisor gets \<open>AlreadyRunning\<close>, not \<open>ConfigMissing\<close>, also when the config file
  does not exist, and no field of the supervisor (nor anything of the operating system) is
  modified.
\<close>

theorem Start_running_before_config:
  assumes "running m" and "files w (configPath m) = None"
  shows "fst (Start m r w) = Some AlreadyRunning \<and>
         fst (Start m r w) \<noteq> Some (ConfigMissing (configPath m)) \<and>
         snd (Start m r w) = (m, w)"
  using assms by (simp add: Start_def)

theorem Start_running_before_config_witness:
  "running demo_running \<and> files demo_os (configPath demo_running) = None \<and>
   fst (Start demo_running all_ok demo_os) = Some AlreadyRunning \<and>
   snd (Start demo_running all_ok demo_os) = (demo_running, demo_os)"
proof -
  have r: "running demo_running"
    by (simp add: demo_running_def)
  have f: "files demo_os (configPath demo_running) = None"
    by (simp add: demo_os_def)
  from Start_running_before_config [OF r f, of all_ok] r f show ?thesis
    by simp
qed

text \<open>
  C2, as the code has it. For a supervisor in the Running state (running flag set, process
  handle held), \<open>Stop\<close> returns success and leaves the running flag cleared, with nothing
  else of the supervisor changed, exactly when the termination signal or else the
  fallback kill was delivered and then the wait returned within the 10 seconds or else
  the force kill succeeded. Otherwise \<open>Stop\<close> returns an error and the supervisor is
  unchanged, still Running: when the signal and the fallback kill both fail, the error is
  that of the kill (\<open>failed to kill sing-box\<close>), and nothing at all has changed; when the
  wait times out and the force kill fails, the error is that of the force kill
  (\<open>failed to force kill sing-box\<close>).
\<close>

theorem Stop_running:
  assumes "running m" and "process_of m = Some p"
  shows "(if (Signal_err r = None \<or> Kill_err r = None) \<and>
             (Wait_res r = WaitReturned \<or> ForceKill_err r = None)
          then fst (Stop m r w) = None \<and> fst (snd (Stop m r w)) = m\<lparr>running := False\<rparr>
          else fst (Stop m r w) \<noteq> None \<and> fst (snd (Stop m r w)) = m) \<and>
         (\<forall>e. Signal_err r \<noteq> None \<and> Kill_err r = Some e \<longrightarrow>
            Stop m r w = (Some (KillFailed e), m, w)) \<and>
         (\<forall>e. (Signal_err r = None \<or> Kill_err r = None) \<and> Wait_res r = TimedOut \<and>
              ForceKill_err r = Some e \<longrightarrow>
            fst (Stop m r w) = Some (ForceKillFailed e) \<and> fst (snd (Stop m r w)) = m)"
proof -
  from assms(2) have c: "cmd m \<noteq> None"
    by (cases "cmd m") (simp_all add: process_of_def)
  with assms show ?thesis
    by (cases "Signal_err r"; cases "Kill_err r"; cases "Wait_res r"; cases "ForceKill_err r")
      (simp_all add: Stop_def)
qed

theorem Stop_running_witness:
  "running demo_running \<and> process_of demo_running = Some 4242 \<and>
   fst (Stop demo_running all_ok demo_os) = None \<and>
   fst (snd (Stop demo_running all_ok demo_os)) = demo_exited \<and>
   fst (Stop demo_running slow_exit demo_os) = None \<and>
   fst (snd (Stop demo_running slow_exit demo_os)) = demo_exited \<and>
   fst (Stop demo_running unkillable demo_os) = Some (ForceKillFailed ''operation not permitted'') \<and>
   Error (ForceKillFailed ''operation not permitted'') =
     ''failed to force kill sing-box: operation not permitted'' \<and>
   fst (snd (Stop demo_running unkillable demo_os)) = demo_running"
proof -
  have r: "running demo_running"
    by (simp add: demo_running_def)
  have p: "process_of demo_running = Some 4242"
    by (simp add: demo_running_def demo_cmd_def process_of_def)
  from Stop_running [OF r p, of all_ok demo_os] Stop_running [OF r p, of slow_exit demo_os]
    Stop_running [OF r p, of unkillable demo_os] r p
  show ?thesis
    by (simp add: all_ok_def slow_exit_def unkillable_def demo_exited_def)
qed

text \<open>
  The claim as the spec has it (every Running supervisor is Stopped when \<open>Stop\<close> returns,
  and \<open>Stop\<close> returns success) fails where the child has already been reaped: the signal
  and the fallback kill both fail, \<open>Stop\<close> returns the kill's error and the running flag
  is still set.
\<close>

theorem Stop_running_counterexample:
  "running demo_running \<and> process_of demo_running = Some 4242 \<and>
   Stop demo_running reaped demo_os =
     (Some (KillFailed ''os: process already finished''), demo_running, demo_os) \<and>
   running (fst (snd (Stop demo_running reaped demo_os)))"
  by (simp add: Stop_def reaped_def all_ok_def demo_running_def demo_cmd_def process_of_def)

text \<open>What the operations leave alone, and the stopped case of \<open>Stop\<close>.\<close>

lemma Start_files: "files (snd (snd (Start m r w))) = files w"
  by (simp add: Start_def Let_def Printf_def split: sum.split)

lemma Stop_files: "files (snd (snd (Stop m r w))) = files w"
  by (simp add: Stop_def Printf_def Sleep_def split: option.split wait_result.split)

lemma Stop_stopped: "\<not> running m \<Longrightarrow> Stop m r w = (Some NotRunning, m, w)"
  by (simp add: Stop_def)

lemma Start_error: "files w' = files w \<Longrightarrow> fst (Start m r w') = fst (Start m r w)"
  by (simp add: Start_def Let_def split: sum.split)

lemma Restart_unfold:
  "Restart m r w =
     Start (fst (snd (Stop m r w))) r
       (Sleep (1 * Second)
          (case fst (Stop m r w) of
             Some err \<Rightarrow> Printf (''Warning: error stopping sing-box: '' @ Error err) (snd (snd (Stop m r w)))
           | None \<Rightarrow> snd (snd (Stop m r w))))"
  by (cases "Stop m r w") (simp add: Restart_def split: option.split)

lemma Restart_files: "files (snd (snd (Restart m r w))) = files w"
  by (simp add: Restart_unfold Start_files Sleep_def Printf_def Stop_files split: option.split)

text \<open>
  C8. \<open>Restart\<close> is \<open>Stop\<close>, whose error is logged as a warning and not returned,
  then a sleep of one second, then \<open>Start\<close> on what \<open>Stop\<close> left, whose result is
  the result of \<open>Restart\<close>; the error returned is the one \<open>Start\<close> gives without
  the delay. On a stopped supervisor \<open>Restart\<close> is \<open>Start\<close> one second later: it
  succeeds exactly when \<open>Start\<close> does, with the same error, and leaves the same state
  (running flag, command and process handle, files, processes launched); the start
  timestamp is read from the clock after the delay.
\<close>

theorem Restart_is_Stop_delay_Start:
  "Restart m r w =
     Start (fst (snd (Stop m r w))) r
       (Sleep (1 * Second)
          (case fst (Stop m r w) of
             Some err \<Rightarrow> Printf (''Warning: error stopping sing-box: '' @ Error err) (snd (snd (Stop m r w)))
           | None \<Rightarrow> snd (snd (Stop m r w)))) \<and>
   fst (Restart m r w) = fst (Start (fst (snd (Stop m r w))) r w) \<and>
   (\<not> running m \<longrightarrow>
      Restart m r w =
        Start m r (Sleep (1 * Second)
                     (Printf ''Warning: error stopping sing-box: sing-box is not running'' w)) \<and>
      fst (Restart m r w) = fst (Start m r w) \<and>
      running (fst (snd (Restart m r w))) = running (fst (snd (Start m r w))) \<and>
      cmd (fst (snd (Restart m r w))) = cmd (fst (snd (Start m r w))) \<and>
      files (snd (snd (Restart m r w))) = files (snd (snd (Start m r w))) \<and>
      spawned (snd (snd (Restart m r w))) = spawned (snd (snd (Start m r w))) \<and>
      (fst (Restart m r w) = None \<longrightarrow>
         startTime (fst (snd (Restart m r w))) = clock w + 1 * Second \<and>
         startTime (fst (snd (Start m r w))) = clock w))"
proof (intro conjI impI)
  show "Restart m r w =
     Start (fst (snd (Stop m r w))) r
       (Sleep (1 * Second)
          (case fst (Stop m r w) of
             Some err \<Rightarrow> Printf (''Warning: error stopping sing-box: '' @ Error err) (snd (snd (Stop m r w)))
           | None \<Rightarrow> snd (snd (Stop m r w))))"
    by (rule Restart_unfold)
  show "fst (Restart m r w) = fst (Start (fst (snd (Stop m r w))) r w)"
    unfolding Restart_unfold
    by (rule Start_error) (simp add: Sleep_def Printf_def Stop_files split: option.split)
next
  assume s: "\<not> running m"
  show eq: "Restart m r w =
        Start m r (Sleep (1 * Second)
                     (Printf ''Warning: error stopping sing-box: sing-box is not running'' w))"
    by (simp add: Restart_unfold Stop_stopped [OF s])
  show "fst (Restart m r w) = fst (Start m r w)"
    unfolding eq by (rule Start_error) (simp add: Sleep_def Printf_def)
  show "running (fst (snd (Restart m r w))) = running (fst (snd (Start m r w)))"
    unfolding eq by (simp add: Start_def Let_def Sleep_def Printf_def split: sum.split)
  show "cmd (fst (snd (Restart m r w))) = cmd (fst (snd (Start m r w)))"
    unfolding eq by (simp add: Start_def Let_def Sleep_def Printf_def split: sum.split)
  show "files (snd (snd (Restart m r w))) = files (snd (snd (Start m r w)))"
    by (simp add: Restart_files Start_files)
  show "spawned (snd (snd (Restart m r w))) = spawned (snd (snd (Start m r w)))"
    unfolding eq by (simp add: Start_def Let_def Sleep_def Printf_def split: sum.split)
  assume ok: "fst (Restart m r w) = None"
  then show "startTime (fst (snd (Restart m r w))) = clock w + 1 * Second"
    unfolding eq by (auto simp: Start_def Let_def Sleep_def Printf_def split: sum.splits if_splits)
  from ok have "fst (Start m r w) = None"
    unfolding eq using Start_error [of "Sleep (1 * Second) (Printf ''Warning: error stopping sing-box: sing-box is not running'' w)" w m r]
    by (simp add: Sleep_def Printf_def)
  then show "startTime (fst (snd (Start m r w))) = clock w"
    by (auto simp: Start_def Let_def Sleep_def Printf_def split: sum.splits if_splits)
qed

theorem Restart_witness:
  "\<not> running demo_stopped \<and>
   fst (Restart demo_stopped all_ok demo_os_cfg) = None \<and>
   fst (Start demo_stopped all_ok demo_os_cfg) = None \<and>
   running (fst (snd (Restart demo_stopped all_ok demo_os_cfg))) \<and>
   startTime (fst (snd (Restart demo_stopped all_ok demo_os_cfg))) = 1700000091 * Second \<and>
   logs (snd (snd (Restart demo_stopped all_ok demo_os_cfg))) =
     [''Warning: error stopping sing-box: sing-box is not running'',
      ''sing-box started with PID 4243''] \<and>
   fst (Restart demo_stopped all_ok demo_os) = Some (ConfigMissing ''/etc/sb/config.json'') \<and>
   fst (Restart demo_running reaped demo_os_cfg) = Some AlreadyRunning"
  using Restart_is_Stop_delay_Start [of demo_stopped all_ok demo_os_cfg]
    Restart_is_Stop_delay_Start [of demo_stopped all_ok demo_os]
    Restart_is_Stop_delay_Start [of demo_running reaped demo_os_cfg]
  by (simp add: demo_stopped_def demo_running_def demo_cmd_def demo_os_cfg_def demo_os_def
      all_ok_def reaped_def Start_def Stop_def Restart_def Sleep_def Printf_def Second_def
      process_of_def itoa_def digits.simps)

text \<open>
  C9, as the code has it. \<open>GetStatus\<close> returns the running flag and an empty version;
  for a running supervisor the uptime and the start timestamp in Unix seconds, for one that
  is not running 0 for both, whatever start timestamp the supervisor holds. The uptime is
  the time since the start as the code computes it: the duration that \<open>time.Since\<close>
  saturates to, in seconds as a \<open>float64\<close>, without its fraction (for a long uptime this
  can be one more than the whole seconds that have passed). The status is a function of
  the running flag, the start timestamp and the clock alone: the command and its process
  handle are not read, and nothing is changed.
\<close>

theorem GetStatus_fields:
  "Running (GetStatus m now) = running m \<and>
   Version (GetStatus m now) = [] \<and>
   Uptime (GetStatus m now) =
     (if running m then int64 (Seconds (Since now (startTime m))) else 0) \<and>
   StartTime (GetStatus m now) = (if running m then Unix (startTime m) else 0) \<and>
   (running m' = running m \<and> startTime m' = startTime m \<longrightarrow> GetStatus m' now = GetStatus m now)"
  by (simp add: GetStatus_def)

lemmas float_defs =
  Seconds_def int64_def round64_def quot_def rem_def Second_def ilog2_def round_even_def
  bitlen.simps fadd_def fdiv_def float64_of_int_def Since_def minDuration_def maxDuration_def
  Let_def

theorem GetStatus_witness:
  "GetStatus demo_running (clock demo_os) =
     \<lparr>Running = True, Version = [], Uptime = 90, StartTime = 1700000000\<rparr> \<and>
   GetStatus demo_stopped (clock demo_os) =
     \<lparr>Running = False, Version = [], Uptime = 0, StartTime = 0\<rparr> \<and>
   GetStatus (demo_running\<lparr>cmd := None\<rparr>) (clock demo_os) = GetStatus demo_running (clock demo_os) \<and>
   clock demo_os - startTime demo_long = 16777216 * Second + 999999999 \<and>
   Uptime (GetStatus demo_long (clock demo_os)) = 16777217 \<and>
   Uptime (GetStatus (demo_running\<lparr>startTime := zero_Time\<rparr>) (clock demo_os)) = 9223372036"
  using GetStatus_fields [of demo_running "clock demo_os" "demo_running\<lparr>cmd := None\<rparr>"]
    GetStatus_fields [of demo_stopped "clock demo_os" demo_stopped]
    GetStatus_fields [of demo_long "clock demo_os" demo_long]
    GetStatus_fields [of "demo_running\<lparr>startTime := zero_Time\<rparr>" "clock demo_os" demo_long]
  by (simp add: demo_running_def demo_stopped_def demo_long_def demo_os_def zero_Time_def
      Unix_def float_defs)

text \<open>
  The claim as the spec has it (the status always holds the start timestamp) fails for a
  supervisor that was started at second 1700000000 and has stopped since: it still holds
  that timestamp, and the status reports 0.
\<close>

theorem GetStatus_counterexample:
  "\<not> running demo_exited \<and> Unix (startTime demo_exited) = 1700000000 \<and>
   StartTime (GetStatus demo_exited (clock demo_os)) = 0"
  by (simp add: GetStatus_def demo_exited_def demo_running_def Unix_def Second_def)

section \<open>Properties of the handlers and of the heartbeat\<close>








lemma dispatch_fst:
  "fst (dispatch m type r w) =
     (if type = ''start'' then fst (Start m r w)
      else if type = ''stop'' then fst (Stop m r w)
      else if type = ''restart'' then fst (Restart m r w)
      else if type = ''status'' then None
      else Some (UnknownCommand type))"
  by (simp add: dispatch_def split: prod.split)

lemma dispatch_output:
  "fst (snd (dispatch m type r w)) =
     (if type = ''start'' then ''Sing-box started''
      else if type = ''stop'' then ''Sing-box stopped''
      else if type = ''restart'' then ''Sing-box restarted''
      else if type = ''status'' then json_Status (GetStatus m (clock w))
      else [])"
  by (simp add: dispatch_def split: prod.split)

lemma dispatch_unknown:
  "type \<notin> {''start'', ''stop'', ''restart'', ''status''} \<Longrightarrow>
   dispatch m type r w = (Some (UnknownCommand type), [], m, w)"
  by (simp add: dispatch_def)

lemma handleCommand_sent:
  "sent (snd (snd (handleCommand c command_id type r w))) =
     sent w @
     [(stream c,
       CommandResult command_id
         (fst (dispatch (sbManager c) type r
                 (Printf (''Received command: '' @ type @ '' (ID: '' @ command_id @ '')'') (os w))) = None)
         (fst (snd (dispatch (sbManager c) type r
                 (Printf (''Received command: '' @ type @ '' (ID: '' @ command_id @ '')'') (os w)))))
         (case fst (dispatch (sbManager c) type r
                 (Printf (''Received command: '' @ type @ '' (ID: '' @ command_id @ '')'') (os w))) of
            None \<Rightarrow> []
          | Some e \<Rightarrow> Error e))]"
  by (cases "dispatch (sbManager c) type r
        (Printf (''Received command: '' @ type @ '' (ID: '' @ command_id @ '')'') (os w))")
    (simp add: handleCommand_def Let_def wlog_def Send_def)

lemma handleCommand_frame:
  "cancelled (snd (snd (handleCommand c command_id type r w))) = cancelled w \<and>
   conns (snd (snd (handleCommand c command_id type r w))) = conns w \<and>
   next_id (snd (snd (handleCommand c command_id type r w))) = next_id w \<and>
   conn (fst (snd (handleCommand c command_id type r w))) = conn c \<and>
   stream (fst (snd (handleCommand c command_id type r w))) = stream c \<and>
   ctx (fst (snd (handleCommand c command_id type r w))) = ctx c"
  by (cases "dispatch (sbManager c) type r
        (Printf (''Received command: '' @ type @ '' (ID: '' @ command_id @ '')'') (os w))")
    (simp add: handleCommand_def Let_def wlog_def Send_def)

lemma handlePushConfig_frame:
  "cancelled (snd (snd (handlePushConfig c version config_json r w))) = cancelled w \<and>
   conns (snd (snd (handlePushConfig c version config_json r w))) = conns w \<and>
   next_id (snd (snd (handlePushConfig c version config_json r w))) = next_id w \<and>
   conn (fst (snd (handlePushConfig c version config_json r w))) = conn c \<and>
   stream (fst (snd (handlePushConfig c version config_json r w))) = stream c \<and>
   ctx (fst (snd (handlePushConfig c version config_json r w))) = ctx c"
  by (simp add: handlePushConfig_def Let_def wlog_def split: prod.split option.split)

lemma handleMessage_frame:
  "cancelled (snd (snd (handleMessage c msg r w))) = cancelled w \<and>
   conns (snd (snd (handleMessage c msg r w))) = conns w \<and>
   next_id (snd (snd (handleMessage c msg r w))) = next_id w \<and>
   conn (fst (snd (handleMessage c msg r w))) = conn c \<and>
   stream (fst (snd (handleMessage c msg r w))) = stream c \<and>
   ctx (fst (snd (handleMessage c msg r w))) = ctx c"
proof (cases msg)
  case (RegisterResponse success message node_id)
  then show ?thesis
    by (simp add: handleMessage_def handleRegisterResponse_def wlog_def)
next
  case (PushConfig version config_json)
  with handlePushConfig_frame [of c version config_json r w] show ?thesis
    by (simp add: handleMessage_def)
next
  case (Command command_id type)
  with handleCommand_frame [of c command_id type r w] show ?thesis
    by (simp add: handleMessage_def)
next
  case OtherPayload
  then show ?thesis
    by (simp add: handleMessage_def wlog_def)
qed

lemma handled_frame:
  "cancelled (snd (handled c msg r w)) = cancelled w \<and>
   conns (snd (handled c msg r w)) = conns w \<and>
   next_id (snd (handled c msg r w)) = next_id w \<and>
   conn (fst (handled c msg r w)) = conn c \<and>
   stream (fst (handled c msg r w)) = stream c \<and>
   ctx (fst (handled c msg r w)) = ctx c"
proof -
  obtain e c1 w1 where h: "handleMessage c msg r w = (e, c1, w1)"
    by (cases "handleMessage c msg r w")
  with handleMessage_frame [of c msg r w] show ?thesis
    by (cases e) (simp_all add: handled_def wlog_def)
qed

text \<open>
  C6. For a command whose type is none of start, stop, restart and status, the handler
  sends one \<open>CommandResult\<close> with the command's id, success false, an empty output and
  the error text \<open>unknown command: \<close> followed by the type, and the supervisor is left
  alone. Handling a command, of any type, cancels nothing, and the receive loop goes on
  with the next event. For every type, the result sent has the command's id, and its
  success flag is true exactly when the operation dispatched (\<open>Start\<close>, \<open>Stop\<close>,
  \<open>Restart\<close>; none that could fail for status) returned no error.
\<close>

theorem handleCommand_result:
  assumes st: "stream c = Some sid"
  shows
  "(type \<notin> {''start'', ''stop'', ''restart'', ''status''} \<longrightarrow>
      sent (snd (snd (handleCommand c command_id type r w))) =
        sent w @ [(Some sid, CommandResult command_id False [] (''unknown command: '' @ type))] \<and>
      sbManager (fst (snd (handleCommand c command_id type r w))) = sbManager c) \<and>
   cancelled (snd (handled c (Command command_id type) r w)) = cancelled w \<and>
   receiveMessages c (RecvMsg (Command command_id type) r # evs) w =
     receiveMessages (fst (handled c (Command command_id type) r w)) evs
       (snd (handled c (Command command_id type) r w)) \<and>
   (\<exists>output err.
      sent (snd (snd (handleCommand c command_id type r w))) =
        sent w @
        [(Some sid,
          CommandResult command_id
            ((if type = ''start'' then fst (Start (sbManager c) r
                  (Printf (''Received command: '' @ type @ '' (ID: '' @ command_id @ '')'') (os w)))
              else if type = ''stop'' then fst (Stop (sbManager c) r
                  (Printf (''Received command: '' @ type @ '' (ID: '' @ command_id @ '')'') (os w)))
              else if type = ''restart'' then fst (Restart (sbManager c) r
                  (Printf (''Received command: '' @ type @ '' (ID: '' @ command_id @ '')'') (os w)))
              else if type = ''status'' then None
              else Some (UnknownCommand type)) = None)
            output err)])"
proof (intro conjI impI)
  assume u: "type \<notin> {''start'', ''stop'', ''restart'', ''status''}"
  show "sent (snd (snd (handleCommand c command_id type r w))) =
        sent w @ [(Some sid, CommandResult command_id False [] (''unknown command: '' @ type))]"
    by (simp add: handleCommand_sent dispatch_unknown [OF u] st)
  show "sbManager (fst (snd (handleCommand c command_id type r w))) = sbManager c"
    by (simp add: handleCommand_def Let_def dispatch_unknown [OF u])
next
  show "cancelled (snd (handled c (Command command_id type) r w)) = cancelled w"
    by (simp add: handled_frame)
  show "receiveMessages c (RecvMsg (Command command_id type) r # evs) w =
     receiveMessages (fst (handled c (Command command_id type) r w)) evs
       (snd (handled c (Command command_id type) r w))"
    by (simp add: split_beta)
  show "\<exists>output err.
      sent (snd (snd (handleCommand c command_id type r w))) =
        sent w @
        [(Some sid,
          CommandResult command_id
            ((if type = ''start'' then fst (Start (sbManager c) r
                  (Printf (''Received command: '' @ type @ '' (ID: '' @ command_id @ '')'') (os w)))
              else if type = ''stop'' then fst (Stop (sbManager c) r
                  (Printf (''Received command: '' @ type @ '' (ID: '' @ command_id @ '')'') (os w)))
              else if type = ''restart'' then fst (Restart (sbManager c) r
                  (Printf (''Received command: '' @ type @ '' (ID: '' @ command_id @ '')'') (os w)))
              else if type = ''status'' then None
              else Some (UnknownCommand type)) = None)
            output err)]"
    unfolding handleCommand_sent dispatch_fst st by blast
qed

lemma heartbeatTick_first:
  "\<exists>rest. sent (snd (heartbeatTick c t w)) =
     sent w @ (stream c, Heartbeat (Unix (clock (os w)))) # rest"
  by (simp add: heartbeatTick_def Let_def Send_def wlog_def cancel_def Printf_def
      split: sum.split option.split)

lemma heartbeatTick_no_stats:
  assumes "Collect_res t = Inl e"
  shows "sent (snd (heartbeatTick c t w)) =
           sent w @ (stream c, Heartbeat (Unix (clock (os w)))) #
             (if Heartbeat_err t = None then [(stream c, SbStatus (running (sbManager c)) 0 0 0)] else [])"
    and "''Warning: failed to collect stats: '' @ e \<in> set (logs (os (snd (heartbeatTick c t w))))"
    and "Heartbeat_err t = None \<Longrightarrow>
           fst (heartbeatTick c t w) \<and> cancelled (snd (heartbeatTick c t w)) = cancelled w"
  using assms
  by (simp_all add: heartbeatTick_def Let_def Send_def wlog_def cancel_def Printf_def GetStatus_def
      split: option.split)

lemma heartbeatTick_goes_on:
  assumes "Heartbeat_err t = None"
  shows "fst (heartbeatTick c t w)"
    and "sendHeartbeat c (Tick t # evs) w = sendHeartbeat c evs (snd (heartbeatTick c t w))"
proof -
  from assms show g: "fst (heartbeatTick c t w)"
    by (simp add: heartbeatTick_def Let_def)
  then show "sendHeartbeat c (Tick t # evs) w = sendHeartbeat c evs (snd (heartbeatTick c t w))"
    by (cases "heartbeatTick c t w") simp
qed

lemma heartbeatTick_send_failed:
  assumes "Heartbeat_err t = Some e"
  shows "\<not> fst (heartbeatTick c t w)"
    and "Done c (snd (heartbeatTick c t w))"
    and "sent (snd (heartbeatTick c t w)) = sent w @ [(stream c, Heartbeat (Unix (clock (os w))))]"
    and "sendHeartbeat c (Tick t # evs) w = snd (heartbeatTick c t w)"
  using assms
  by (simp_all add: heartbeatTick_def Let_def Send_def wlog_def cancel_def Printf_def Done_def
      split: sum.split)

text \<open>
  C3. The loop runs the tick body on every tick it takes, and the first send of the body
  is the heartbeat with the timestamp. When the stats collector fails, the failure is
  logged as a warning, the heartbeat is sent all the same, no stats message is sent in
  that tick, and (the heartbeat send working) the status message follows, nothing is
  cancelled. When the heartbeat send works, the loop goes on with the next event from
  where the tick body ended, whatever the collector did. When the heartbeat send fails,
  the context is cancelled, the heartbeat was the only send of the tick (neither stats nor
  status is attempted) and the loop has returned: later events are not looked at.
\<close>

theorem heartbeat_independent_of_stats:
  assumes st: "stream c = Some sid"
  shows
  "(\<exists>rest. sent (snd (heartbeatTick c t w)) =
      sent w @ (Some sid, Heartbeat (Unix (clock (os w)))) # rest) \<and>
   (\<forall>e. Collect_res t = Inl e \<longrightarrow>
      sent (snd (heartbeatTick c t w)) =
        sent w @ (Some sid, Heartbeat (Unix (clock (os w)))) #
          (if Heartbeat_err t = None then [(Some sid, SbStatus (running (sbManager c)) 0 0 0)] else []) \<and>
      ''Warning: failed to collect stats: '' @ e \<in> set (logs (os (snd (heartbeatTick c t w)))) \<and>
      (Heartbeat_err t = None \<longrightarrow>
         fst (heartbeatTick c t w) \<and> cancelled (snd (heartbeatTick c t w)) = cancelled w)) \<and>
   (Heartbeat_err t = None \<longrightarrow>
      sendHeartbeat c (Tick t # evs) w = sendHeartbeat c evs (snd (heartbeatTick c t w))) \<and>
   (\<forall>e. Heartbeat_err t = Some e \<longrightarrow>
      \<not> fst (heartbeatTick c t w) \<and> Done c (snd (heartbeatTick c t w)) \<and>
      sent (snd (heartbeatTick c t w)) = sent w @ [(Some sid, Heartbeat (Unix (clock (os w))))] \<and>
      sendHeartbeat c (Tick t # evs) w = snd (heartbeatTick c t w))"
proof (intro conjI allI impI)
  from heartbeatTick_first [of c t w]
  show "\<exists>rest. sent (snd (heartbeatTick c t w)) =
      sent w @ (Some sid, Heartbeat (Unix (clock (os w)))) # rest"
    by (simp add: st)
next
  fix e
  assume f: "Collect_res t = Inl e"
  from heartbeatTick_no_stats(1) [OF f, of c w]
  show "sent (snd (heartbeatTick c t w)) =
        sent w @ (Some sid, Heartbeat (Unix (clock (os w)))) #
          (if Heartbeat_err t = None then [(Some sid, SbStatus (running (sbManager c)) 0 0 0)] else [])"
    by (simp add: st)
  show "''Warning: failed to collect stats: '' @ e \<in> set (logs (os (snd (heartbeatTick c t w))))"
    by (rule heartbeatTick_no_stats(2) [OF f])
  assume ok: "Heartbeat_err t = None"
  from heartbeatTick_no_stats(3) [OF f ok]
  show "fst (heartbeatTick c t w)" and "cancelled (snd (heartbeatTick c t w)) = cancelled w"
    by simp_all
next
  assume "Heartbeat_err t = None"
  then show "sendHeartbeat c (Tick t # evs) w = sendHeartbeat c evs (snd (heartbeatTick c t w))"
    by (rule heartbeatTick_goes_on(2))
next
  fix e
  assume f: "Heartbeat_err t = Some e"
  from heartbeatTick_send_failed [OF f]
  show "\<not> fst (heartbeatTick c t w)" and "Done c (snd (heartbeatTick c t w))"
    and "sent (snd (heartbeatTick c t w)) = sent w @ [(Some sid, Heartbeat (Unix (clock (os w))))]"
    and "sendHeartbeat c (Tick t # evs) w = snd (heartbeatTick c t w)"
    by (simp_all add: st)
qed

text \<open>The definitions that the closed theorems below evaluate.\<close>

lemmas demo_defs =
  demo_connected_def demo_world2_def demo_client_def demo_world1_def demo_world_def demo_os_def
  demo_stopped_def demo_running_def demo_cmd_def demo_cfg_def conn_ok_def all_ok_def no_mkdir_def
  tick_ok_def tick_no_stats_def tick_hb_fails_def dial_fails_def
  NewClient_def Connect_def register_def Send_def wlog_def wsleep_def Printf_def Sleep_def
  cancel_def Done_def Let_def


theorem handleCommand_witness:
  "stream demo_connected = Some 2 \<and>
   ''reload'' \<notin> {''start'', ''stop'', ''restart'', ''status''} \<and>
   sent (snd (snd (handleCommand demo_connected ''c1'' ''reload'' all_ok demo_world2))) =
     sent demo_world2 @ [(Some 2, CommandResult ''c1'' False [] ''unknown command: reload'')] \<and>
   cancelled (snd (handled demo_connected (Command ''c1'' ''reload'') all_ok demo_world2)) = {} \<and>
   sent (snd (snd (handleCommand demo_connected ''c2'' ''stop'' all_ok demo_world2))) =
     sent demo_world2 @
       [(Some 2, CommandResult ''c2'' False ''Sing-box stopped'' ''sing-box is not running'')]"
proof -
  have st: "stream demo_connected = Some 2"
    by (simp add: demo_defs)
  from handleCommand_result [OF st, of "''reload''" "''c1''" all_ok demo_world2 "[]"]
    handleCommand_result [OF st, of "''stop''" "''c2''" all_ok demo_world2 "[]"] st
  show ?thesis
    by (simp add: demo_defs handleCommand_def handled_def handleMessage_def dispatch_def Stop_def)
qed

theorem heartbeat_witness:
  "stream demo_connected = Some 2 \<and>
   Collect_res tick_no_stats = Inl ''json: unsupported value'' \<and>
   Heartbeat_err tick_no_stats = None \<and>
   sent (snd (heartbeatTick demo_connected tick_no_stats demo_world2)) =
     sent demo_world2 @ [(Some 2, Heartbeat 1700000090), (Some 2, SbStatus False 0 0 0)] \<and>
   sent (sendHeartbeat demo_connected [Tick tick_no_stats, Tick tick_no_stats] demo_world2) =
     sent demo_world2 @
       [(Some 2, Heartbeat 1700000090), (Some 2, SbStatus False 0 0 0),
        (Some 2, Heartbeat 1700000090), (Some 2, SbStatus False 0 0 0)] \<and>
   Heartbeat_err tick_hb_fails = Some ''EOF'' \<and>
   sent (sendHeartbeat demo_connected [Tick tick_hb_fails, Tick tick_ok] demo_world2) =
     sent demo_world2 @ [(Some 2, Heartbeat 1700000090)] \<and>
   Done demo_connected (sendHeartbeat demo_connected [Tick tick_hb_fails, Tick tick_ok] demo_world2)"
proof -
  have st: "stream demo_connected = Some 2"
    by (simp add: demo_defs)
  from heartbeat_independent_of_stats [OF st, of tick_no_stats demo_world2 "[Tick tick_no_stats]"]
    heartbeat_independent_of_stats [OF st, of tick_hb_fails demo_world2 "[Tick tick_ok]"] st
  show ?thesis
    by (simp add: demo_defs heartbeatTick_def GetStatus_def Unix_def Second_def)
qed

section \<open>Properties of the session and of the reconnect loop\<close>


lemma recv_failed_frame:
  "conns (recv_failed c e w) = conns w \<and> next_id (recv_failed c e w) = next_id w \<and>
   cancelled (recv_failed c e w) = insert (ctx c) (cancelled w) \<and>
   sent (recv_failed c e w) = sent w"
  by (simp add: recv_failed_def cancel_def wlog_def)













lemma NewClient_below:
  assumes "\<forall>k \<in> set (conns w). k < next_id w" and "\<forall>x \<in> cancelled w. x < next_id w"
  shows "handles_below (fst (NewClient m w)) (snd (NewClient m w))"
  using assms by (auto simp: NewClient_def handles_below_def less_Suc_eq)


lemma foldl_step_returned:
  "rx s = RxReturned \<Longrightarrow> hb s = HbReturned \<Longrightarrow> foldl step s acts = s"
proof (induction acts)
  case Nil
  show ?case by simp
next
  case (Cons a acts)
  have "step s a = s"
  proof (cases a)
    case (Recv_returns x)
    with Cons.prems show ?thesis
      by (cases x) simp_all
  qed (use Cons.prems in simp_all)
  with Cons show ?case by simp
qed

text \<open>
  C7, as the code has it. The loop that fires the cancellation returns at once with no
  further send: the receive loop after a receive error (nothing is sent, later events are
  not looked at), the heartbeat loop after a failed heartbeat send (that attempt was its
  last send). The heartbeat loop also returns, with no send, when its select takes the
  cancelled context. A loop that has returned takes no further step, and with both
  returned the session does nothing any more. But the send of a command handler does not
  test the context: called with the context cancelled, it still makes its send.
\<close>

theorem cancellation_ends_own_loop:
  assumes st: "stream c = Some sid"
  shows
  "receiveMessages c (RecvErr e # evs) w = (c, recv_failed c e w) \<and>
   Done c (recv_failed c e w) \<and> sent (recv_failed c e w) = sent w \<and>
   (\<forall>e'. Heartbeat_err t = Some e' \<longrightarrow>
      sendHeartbeat c (Tick t # hevs) w = snd (heartbeatTick c t w) \<and>
      Done c (snd (heartbeatTick c t w)) \<and>
      sent (snd (heartbeatTick c t w)) = sent w @ [(Some sid, Heartbeat (Unix (clock (os w))))]) \<and>
   (Done c w \<longrightarrow> sendHeartbeat c (CtxDone # hevs) w = w) \<and>
   (rx s = RxReturned \<longrightarrow> step s (Recv_returns x) = s \<and> step s (Handle r) = s) \<and>
   (hb s = HbReturned \<longrightarrow> step s (Ticker t) = s \<and> step s Ctx_done = s) \<and>
   (rx s = RxReturned \<and> hb s = HbReturned \<longrightarrow> foldl step s acts = s) \<and>
   (Done c w \<longrightarrow>
      (\<exists>result. sent (snd (snd (handleCommand c command_id type r w))) =
                  sent w @ [(Some sid, result)]))"
proof (intro conjI allI impI)
  show "receiveMessages c (RecvErr e # evs) w = (c, recv_failed c e w)"
    by simp
  show "Done c (recv_failed c e w)"
    by (simp add: Done_def recv_failed_frame)
  show "sent (recv_failed c e w) = sent w"
    by (simp add: recv_failed_frame)
next
  fix e'
  assume f: "Heartbeat_err t = Some e'"
  from heartbeatTick_send_failed [OF f]
  show "sendHeartbeat c (Tick t # hevs) w = snd (heartbeatTick c t w)"
    and "Done c (snd (heartbeatTick c t w))"
    and "sent (snd (heartbeatTick c t w)) = sent w @ [(Some sid, Heartbeat (Unix (clock (os w))))]"
    by (simp_all add: st)
next
  assume "Done c w"
  then show "sendHeartbeat c (CtxDone # hevs) w = w"
    by simp
next
  assume "rx s = RxReturned"
  then show "step s (Recv_returns x) = s" and "step s (Handle r) = s"
    by (cases x; simp)+
next
  assume "hb s = HbReturned"
  then show "step s (Ticker t) = s" and "step s Ctx_done = s"
    by simp_all
next
  assume "rx s = RxReturned \<and> hb s = HbReturned"
  then show "foldl step s acts = s"
    by (simp add: foldl_step_returned)
next
  show "\<exists>result. sent (snd (snd (handleCommand c command_id type r w))) = sent w @ [(Some sid, result)]"
    by (simp add: handleCommand_sent st)
qed

lemmas run_defs =
  run_session_def session_def recv_failed_def handled_def handleMessage_def handleCommand_def
  dispatch_def heartbeatTick_def reconnect_def renew_def retry_later_def
  demo_cancelled_def


theorem cancellation_witness:
  "stream demo_connected = Some 2 \<and>
   Heartbeat_err tick_hb_fails = Some ''EOF'' \<and>
   sent (sendHeartbeat demo_connected [Tick tick_hb_fails, Tick tick_ok, Tick tick_ok] demo_world2) =
     sent demo_world2 @ [(Some 2, Heartbeat 1700000090)] \<and>
   Done demo_connected (world demo_cancelled) \<and>
   sent (sendHeartbeat demo_connected [CtxDone, Tick tick_ok] (world demo_cancelled)) =
     sent (world demo_cancelled) \<and>
   hb demo_cancelled = HbReturned \<and>
   step demo_cancelled (Ticker tick_ok) = demo_cancelled \<and>
   length (sent (snd (snd (handleCommand demo_connected ''c1'' ''stop'' all_ok (world demo_cancelled))))) =
     Suc (length (sent (world demo_cancelled)))"
proof -
  have st: "stream demo_connected = Some 2"
    by (simp add: demo_defs)
  have f: "Heartbeat_err tick_hb_fails = Some ''EOF''"
    by (simp add: tick_hb_fails_def tick_ok_def)
  have d: "Done demo_connected (world demo_cancelled)"
    by (simp add: demo_defs run_defs Unix_def Second_def)
  have h: "hb demo_cancelled = HbReturned"
    by (simp add: demo_defs run_defs Unix_def Second_def)
  note T1 = cancellation_ends_own_loop [OF st, of "''EOF''" "[]" demo_world2 tick_hb_fails
      "[Tick tick_ok, Tick tick_ok]" demo_cancelled "Inl ''EOF''" all_ok "[]" "''c1''" "''stop''"]
  note T2 = cancellation_ends_own_loop [OF st, of "''EOF''" "[]" "world demo_cancelled" tick_ok
      "[Tick tick_ok]" demo_cancelled "Inl ''EOF''" all_ok "[]" "''c1''" "''stop''"]
  from T1 f
  have 1: "sent (sendHeartbeat demo_connected [Tick tick_hb_fails, Tick tick_ok, Tick tick_ok] demo_world2) =
     sent demo_world2 @ [(Some 2, Heartbeat 1700000090)]"
    by (simp add: demo_defs Unix_def Second_def)
  from T2 d
  have 2: "sent (sendHeartbeat demo_connected [CtxDone, Tick tick_ok] (world demo_cancelled)) =
     sent (world demo_cancelled)"
    by simp
  from T2 h
  have 3: "step demo_cancelled (Ticker tick_ok) = demo_cancelled"
    by blast
  from T2 d
  obtain result where "sent (snd (snd (handleCommand demo_connected ''c1'' ''stop'' all_ok (world demo_cancelled)))) =
     sent (world demo_cancelled) @ [(Some 2, result)]"
    by blast
  then have 4: "length (sent (snd (snd (handleCommand demo_connected ''c1'' ''stop'' all_ok (world demo_cancelled))))) =
     Suc (length (sent (world demo_cancelled)))"
    by simp
  from st f d h 1 2 3 4 show ?thesis
    by blast
qed

text \<open>
  The claim as the spec has it (no send on a session once its cancellation has fired)
  fails in this interleaving: \<open>Recv\<close> returns a stop command; before it is handled,
  the heartbeat send fails and the heartbeat loop cancels the context; the receive loop
  then handles the command and sends its \<open>CommandResult\<close> on the cancelled session.
\<close>

theorem cancellation_counterexample:
  "rx demo_cancelled = Handling (Command ''c1'' ''stop'') \<and>
   Done (client demo_cancelled) (world demo_cancelled) \<and>
   sent (world demo_cancelled) =
     [(Some 2, Register ''secret'' ''1.0.0''), (Some 2, Heartbeat 1700000090)] \<and>
   sent (world (step demo_cancelled (Handle all_ok))) =
     [(Some 2, Register ''secret'' ''1.0.0''), (Some 2, Heartbeat 1700000090),
      (Some 2, CommandResult ''c1'' False ''Sing-box stopped'' ''sing-box is not running'')]"
  by (simp add: demo_defs run_defs Stop_def Unix_def Second_def)



end
